theory Spec2Isabelle
  imports
    Complex_Main
    "HOL-Library.Char_ord"
    "HOL-Library.List_Lexorder"
begin

section \<open>Sync strategies of the S3 customisation (\<^verbatim>\<open>syncstrategy/base.py\<close>)\<close>

text \<open>
  The module decides, for a file known at the source and/or the destination of an
  \<^verbatim>\<open>aws s3 sync\<close>, whether the object and its ACL have to be transferred. The
  embedding follows the Python text: a class instance is a record, a raised exception is
  the left summand of a sum type, a Python \<^verbatim>\<open>None\<close> result is \<open>None\<close> of an
  option type, and every loop is a recursive function over the list the loop walks.
  Diagnostic logging has no effect on any returned value and is left out, except that the
  arguments of a logging call are evaluated before the call, so an attribute read on an
  absent record raises there as well.
\<close>

subsection \<open>Exceptions\<close>

datatype py_error = ValueError | NotImplementedError | AttributeError

subsection \<open>File records and ACL responses\<close>

text \<open>
  Modelled from the spec: the \<^verbatim>\<open>FileStat\<close> class and the shape of the ACL response are
  declared outside this module. A record carries the attributes the module reads; the ACL
  response is the structure \<^verbatim>\<open>{Owner: {ID}, Grants: [{Grantee, Permission}, ...]}\<close>.
  A grantee is identified by an \<^verbatim>\<open>ID\<close> (a canonical user) or by a \<^verbatim>\<open>URI\<close> (a group),
  and a grant's \<^verbatim>\<open>Permission\<close> is read with \<^verbatim>\<open>.get('Permission', '')\<close>, so it may be
  missing. Timestamps are instants counted in microseconds, the resolution of Python's
  \<^verbatim>\<open>datetime\<close>. The attribute \<^verbatim>\<open>size\<close> is named \<open>size_attr\<close> here.
\<close>

record grantee =
  Grantee_Type :: string
  Grantee_ID :: "string option"
  Grantee_URI :: "string option"

record grant =
  Grantee :: grantee
  Permission :: "string option"

record owner =
  Owner_ID :: string

record acl_response =
  Owner :: owner
  Grants :: "grant list"

record file_stat =
  src :: string
  dest :: string
  size_attr :: int
  last_update :: int
  operation_name :: string
  acl_response_data :: "acl_response option"

subsection \<open>\<^verbatim>\<open>SyncResponse\<close>\<close>

record SyncResponse =
  sync_object :: bool
  sync_acl :: bool

definition SyncResponse_bool :: "SyncResponse \<Rightarrow> bool" where
  "SyncResponse_bool self = (sync_object self \<or> sync_acl self)"

subsection \<open>Time differences\<close>

text \<open>
  \<^verbatim>\<open>dest_time - src_time\<close> is a \<^verbatim>\<open>timedelta\<close>: the difference in microseconds,
  normalised by the standard library to \<open>0 \<le> microseconds < 10\<^sup>6\<close> and
  \<open>0 \<le> seconds < 86400\<close>, with the sign carried by \<open>days\<close>.
\<close>

record timedelta =
  days :: int
  seconds :: int
  microseconds :: int

definition timedelta_of_microseconds :: "int \<Rightarrow> timedelta" where
  "timedelta_of_microseconds n =
     \<lparr> days = n div (86400 * 1000000),
       seconds = (n mod (86400 * 1000000)) div 1000000,
       microseconds = n mod 1000000 \<rparr>"

definition datetime_sub :: "int \<Rightarrow> int \<Rightarrow> timedelta" where
  "datetime_sub a b = timedelta_of_microseconds (a - b)"

text \<open>
  \<^verbatim>\<open>total_seconds\<close>: the operator \<^verbatim>\<open>/\<close> is Python 3's true division (the module
  defines \<^verbatim>\<open>__bool__\<close>, the Python 3 truth protocol). Its result is only ever compared
  with zero, and the rounding of the division changes neither the sign of the quotient nor
  whether it is zero, so the quotient is taken exactly, as a rational number.
\<close>

definition total_seconds :: "timedelta \<Rightarrow> rat" where
  "total_seconds td =
     (of_int (microseconds td) + (of_int (seconds td) + of_int (days td) * 24 * 3600) * 10 ^ 6)
       / 10 ^ 6"

subsection \<open>Comparators of \<^verbatim>\<open>BaseSync\<close>\<close>

definition compare_size :: "file_stat \<Rightarrow> file_stat \<Rightarrow> bool" where
  "compare_size src_file dest_file = (size_attr src_file = size_attr dest_file)"

text \<open>
  \<^verbatim>\<open>compare_time\<close> has no \<^verbatim>\<open>else\<close> for an operation other than upload, copy and
  download: the function then falls off its end and returns \<^verbatim>\<open>None\<close>.
\<close>

definition compare_time :: "file_stat \<Rightarrow> file_stat \<Rightarrow> bool option" where
  "compare_time src_file dest_file =
     (let src_time = last_update src_file;
          dest_time = last_update dest_file;
          delta = datetime_sub dest_time src_time;
          cmd = operation_name src_file
      in if cmd = ''upload'' \<or> cmd = ''copy'' then
           (if total_seconds delta \<ge> 0 then Some True else Some False)
         else if cmd = ''download'' then
           (if total_seconds delta \<le> 0 then Some True else Some False)
         else None)"

text \<open>
  Modelled from the spec: \<^verbatim>\<open>separate_owner_grants\<close> is imported from the S3 utilities,
  which are not part of this module. It partitions a grant list into the grants whose
  grantee ID equals the given owner ID and all remaining grants, each in the order of the
  input.
\<close>

definition separate_owner_grants :: "grant list \<Rightarrow> string \<Rightarrow> grant list \<times> grant list" where
  "separate_owner_grants grants owner_id =
     (filter (\<lambda>g. Grantee_ID (Grantee g) = Some owner_id) grants,
      filter (\<lambda>g. Grantee_ID (Grantee g) \<noteq> Some owner_id) grants)"

text \<open>The sort key and the compared value, \<^verbatim>\<open>x.get('Permission', '')\<close>.\<close>

definition get_permission :: "grant \<Rightarrow> string" where
  "get_permission x = (case Permission x of None \<Rightarrow> [] | Some p \<Rightarrow> p)"

text \<open>
  The loop \<^verbatim>\<open>for i in range(len(src_owner_grants))\<close>, over the list of indices; it
  breaks at the first index whose permissions differ.
\<close>

fun owner_grants_loop :: "grant list \<Rightarrow> grant list \<Rightarrow> nat list \<Rightarrow> bool \<Rightarrow> bool" where
  "owner_grants_loop src_owner_grants dest_owner_grants [] are_equal = are_equal"
| "owner_grants_loop src_owner_grants dest_owner_grants (i # rest) are_equal =
     (let src_permission = get_permission (src_owner_grants ! i);
          dest_permission = get_permission (dest_owner_grants ! i);
          are_equal = (src_permission = dest_permission)
      in if \<not> are_equal then are_equal
         else owner_grants_loop src_owner_grants dest_owner_grants rest are_equal)"

text \<open>
  The loop \<^verbatim>\<open>for grant in src_other_grants\<close>; it breaks at the first grant that is not
  a member of the destination's list.
\<close>

fun other_grants_loop :: "grant list \<Rightarrow> grant list \<Rightarrow> bool \<Rightarrow> bool" where
  "other_grants_loop [] dest_other_grants are_equal = are_equal"
| "other_grants_loop (grant # rest) dest_other_grants are_equal =
     (let are_equal = (grant \<in> set dest_other_grants)
      in if \<not> are_equal then are_equal
         else other_grants_loop rest dest_other_grants are_equal)"

text \<open>
  The body of \<^verbatim>\<open>compare_acl\<close> after its first test, on the two ACL responses.
  \<^verbatim>\<open>list.sort\<close> with a key is a stable sort, as \<open>sort_key\<close> is; Python orders strings
  by code point, which is the lexicographic order of \<open>string\<close>.
\<close>

definition compare_acl_data :: "acl_response \<Rightarrow> acl_response \<Rightarrow> bool" where
  "compare_acl_data src_acl dest_acl =
     (let (src_owner, src_grants) = (Owner src_acl, Grants src_acl);
          (dest_owner, dest_grants) = (Owner dest_acl, Grants dest_acl);
          (src_owner_grants, src_other_grants) =
             separate_owner_grants src_grants (Owner_ID src_owner);
          (dest_owner_grants, dest_other_grants) =
             separate_owner_grants dest_grants (Owner_ID dest_owner);
          are_equal = False;
          are_equal =
            (if src_owner_grants \<noteq> [] \<and> dest_owner_grants \<noteq> [] then
               (let are_equal = (length src_owner_grants = length dest_owner_grants)
                in if are_equal then
                     owner_grants_loop
                       (sort_key get_permission src_owner_grants)
                       (sort_key get_permission dest_owner_grants)
                       [0 ..< length src_owner_grants] are_equal
                   else are_equal)
             else are_equal)
      in if are_equal then
           (let are_equal = (length src_other_grants = length dest_other_grants)
            in if are_equal then other_grants_loop src_other_grants dest_other_grants are_equal
               else are_equal)
         else are_equal)"

text \<open>
  \<^verbatim>\<open>compare_acl\<close>: an absent ACL response (\<^verbatim>\<open>None\<close>) is falsy; a present one holds the
  keys \<^verbatim>\<open>Owner\<close> and \<^verbatim>\<open>Grants\<close> and is truthy.
\<close>

definition compare_acl :: "file_stat \<Rightarrow> file_stat \<Rightarrow> bool" where
  "compare_acl src_file dest_file =
     (case acl_response_data src_file of
        None \<Rightarrow> True
      | Some src_acl \<Rightarrow>
          (case acl_response_data dest_file of
             None \<Rightarrow> True
           | Some dest_acl \<Rightarrow> compare_acl_data src_acl dest_acl))"

subsection \<open>Strategies and their construction\<close>

text \<open>
  An instance holds its class, the attribute \<^verbatim>\<open>_sync_type\<close> (here \<open>u_sync_type\<close>), the
  flag \<^verbatim>\<open>include_acl\<close> and the class attribute \<^verbatim>\<open>ARGUMENT\<close>, a dictionary from strings
  to strings or \<^verbatim>\<open>None\<close>. \<^verbatim>\<open>ARGUMENT\<close> is \<^verbatim>\<open>None\<close> in the four classes of this module;
  a strategy defined elsewhere overrides it, which is why it is a field here.
\<close>

datatype strategy_class = BaseSync | SizeAndLastModifiedSync | NeverSync | MissingFileSync

record strategy =
  cls :: strategy_class
  u_sync_type :: string
  include_acl :: bool
  ARGUMENT :: "(string \<rightharpoonup> string) option"

definition VALID_SYNC_TYPES :: "string list" where
  "VALID_SYNC_TYPES = [''file_at_src_and_dest'', ''file_not_at_dest'', ''file_not_at_src'']"

definition check_sync_type :: "string \<Rightarrow> py_error + unit" where
  "check_sync_type sync_type =
     (if sync_type \<notin> set VALID_SYNC_TYPES then Inl ValueError else Inr ())"

text \<open>\<^verbatim>\<open>BaseSync.__init__\<close>, run for an instance of class \<open>c\<close>.\<close>

definition BaseSync_init :: "strategy_class \<Rightarrow> string \<Rightarrow> py_error + strategy" where
  "BaseSync_init c sync_type =
     (case check_sync_type sync_type of
        Inl e \<Rightarrow> Inl e
      | Inr _ \<Rightarrow>
          Inr \<lparr> cls = c, u_sync_type = sync_type, include_acl = False, ARGUMENT = None \<rparr>)"

text \<open>
  The default of the constructor's parameter: \<^verbatim>\<open>SizeAndLastModifiedSync\<close> inherits the
  constructor of \<^verbatim>\<open>BaseSync\<close>, the other two classes pass their own default on.
\<close>

fun default_sync_type :: "strategy_class \<Rightarrow> string" where
  "default_sync_type BaseSync = ''file_at_src_and_dest''"
| "default_sync_type SizeAndLastModifiedSync = ''file_at_src_and_dest''"
| "default_sync_type NeverSync = ''file_not_at_src''"
| "default_sync_type MissingFileSync = ''file_not_at_dest''"

text \<open>Calling the class \<open>c\<close>, with the argument given or left out.\<close>

definition new_strategy :: "strategy_class \<Rightarrow> string option \<Rightarrow> py_error + strategy" where
  "new_strategy c arg =
     BaseSync_init c (case arg of None \<Rightarrow> default_sync_type c | Some sync_type \<Rightarrow> sync_type)"

definition sync_type :: "strategy \<Rightarrow> string" where
  "sync_type self = u_sync_type self"

subsection \<open>The decision of each strategy\<close>

text \<open>Python's \<^verbatim>\<open>not\<close> on the result of \<^verbatim>\<open>compare_time\<close>: \<^verbatim>\<open>None\<close> is falsy.\<close>

fun py_not :: "bool option \<Rightarrow> bool" where
  "py_not None = True"
| "py_not (Some b) = (\<not> b)"

definition BaseSync_determine_should_sync ::
  "file_stat option \<Rightarrow> file_stat option \<Rightarrow> bool \<Rightarrow> py_error + SyncResponse" where
  "BaseSync_determine_should_sync src_file dest_file acl = Inl NotImplementedError"

text \<open>
  \<^verbatim>\<open>SizeAndLastModifiedSync\<close> reads \<^verbatim>\<open>src_file.size\<close> and \<^verbatim>\<open>dest_file.size\<close> first;
  on an absent record (\<^verbatim>\<open>None\<close>) the read raises \<^verbatim>\<open>AttributeError\<close>.
\<close>

fun SizeAndLastModifiedSync_determine_should_sync ::
  "file_stat option \<Rightarrow> file_stat option \<Rightarrow> bool \<Rightarrow> py_error + SyncResponse" where
  "SizeAndLastModifiedSync_determine_should_sync (Some src_file) (Some dest_file) acl =
     (let same_size = compare_size src_file dest_file;
          same_last_modified_time = compare_time src_file dest_file;
          object_should_sync = ((\<not> same_size) \<or> py_not same_last_modified_time);
          acl_should_sync = False;
          acl_should_sync =
            (if acl then (let same_acl = compare_acl src_file dest_file in \<not> same_acl)
             else acl_should_sync)
      in Inr \<lparr> sync_object = object_should_sync, sync_acl = acl_should_sync \<rparr>)"
| "SizeAndLastModifiedSync_determine_should_sync _ _ acl = Inl AttributeError"

definition NeverSync_determine_should_sync ::
  "file_stat option \<Rightarrow> file_stat option \<Rightarrow> bool \<Rightarrow> py_error + SyncResponse" where
  "NeverSync_determine_should_sync src_file dest_file acl =
     Inr \<lparr> sync_object = False, sync_acl = False \<rparr>"

text \<open>
  \<^verbatim>\<open>MissingFileSync\<close> reads \<^verbatim>\<open>src_file.src\<close> and \<^verbatim>\<open>src_file.dest\<close> for its log line
  and never looks at \<^verbatim>\<open>dest_file\<close>.
\<close>

fun MissingFileSync_determine_should_sync ::
  "file_stat option \<Rightarrow> file_stat option \<Rightarrow> bool \<Rightarrow> py_error + SyncResponse" where
  "MissingFileSync_determine_should_sync (Some src_file) dest_file acl =
     Inr \<lparr> sync_object = True, sync_acl = acl \<rparr>"
| "MissingFileSync_determine_should_sync None dest_file acl = Inl AttributeError"

text \<open>Method lookup of \<^verbatim>\<open>self._determine_should_sync\<close> on the class of the instance.\<close>

fun u_determine_should_sync ::
  "strategy_class \<Rightarrow> file_stat option \<Rightarrow> file_stat option \<Rightarrow> bool \<Rightarrow> py_error + SyncResponse" where
  "u_determine_should_sync BaseSync = BaseSync_determine_should_sync"
| "u_determine_should_sync SizeAndLastModifiedSync = SizeAndLastModifiedSync_determine_should_sync"
| "u_determine_should_sync NeverSync = NeverSync_determine_should_sync"
| "u_determine_should_sync MissingFileSync = MissingFileSync_determine_should_sync"

definition determine_should_sync ::
  "strategy \<Rightarrow> file_stat option \<Rightarrow> file_stat option \<Rightarrow> py_error + SyncResponse" where
  "determine_should_sync self src_file dest_file =
     u_determine_should_sync (cls self) src_file dest_file (include_acl self)"

subsection \<open>Selecting a strategy from the command line parameters\<close>

text \<open>
  The parameters of the command are a dictionary from names to Python values; the test
  \<^verbatim>\<open>if params.get(name_in_params)\<close> is on the truth value of what the dictionary holds,
  \<^verbatim>\<open>None\<close> for a missing key.
\<close>

datatype py_value = PyNone | PyBool bool | PyInt int | PyStr string | PyList "py_value list"

fun truthy :: "py_value \<Rightarrow> bool" where
  "truthy PyNone = False"
| "truthy (PyBool b) = b"
| "truthy (PyInt i) = (i \<noteq> 0)"
| "truthy (PyStr s) = (s \<noteq> [])"
| "truthy (PyList vs) = (vs \<noteq> [])"

definition dict_get :: "(string \<rightharpoonup> py_value) \<Rightarrow> string \<Rightarrow> py_value" where
  "dict_get params k = (case params k of None \<Rightarrow> PyNone | Some v \<Rightarrow> v)"

text \<open>\<^verbatim>\<open>str.replace(old, new)\<close> for one-character \<^verbatim>\<open>old\<close> and \<^verbatim>\<open>new\<close>.\<close>

definition str_replace :: "char \<Rightarrow> char \<Rightarrow> string \<Rightarrow> string" where
  "str_replace old new s = map (\<lambda>c. if c = old then new else c) s"

definition arg_name :: "strategy \<Rightarrow> string option" where
  "arg_name self =
     (let name = None
      in case ARGUMENT self of None \<Rightarrow> name | Some a \<Rightarrow> a ''name'')"

definition arg_dest :: "strategy \<Rightarrow> string option" where
  "arg_dest self =
     (let dest = None
      in case ARGUMENT self of None \<Rightarrow> dest | Some a \<Rightarrow> a ''dest'')"

definition use_sync_strategy :: "strategy \<Rightarrow> (string \<rightharpoonup> py_value) \<Rightarrow> strategy option" where
  "use_sync_strategy self params =
     (let name_in_params =
            (case arg_dest self of
               Some d \<Rightarrow> Some d
             | None \<Rightarrow>
                 (case arg_name self of
                    Some n \<Rightarrow> Some (str_replace CHR ''-'' CHR ''_'' n)
                  | None \<Rightarrow> None))
      in case name_in_params of
           Some k \<Rightarrow> if truthy (dict_get params k) then Some self else None
         | None \<Rightarrow> None)"

subsection \<open>Example inputs\<close>

text \<open>
  Concrete records and strategies at which the theorems below are evaluated: a grant of
  full control to the owner, a read grant to the group of all users, and files carrying
  ACL responses built from them.
\<close>

definition owner_full_control :: grant where
  "owner_full_control =
     \<lparr> Grantee = \<lparr> Grantee_Type = ''CanonicalUser'', Grantee_ID = Some ''owner-id'',
                    Grantee_URI = None \<rparr>,
       Permission = Some ''FULL_CONTROL'' \<rparr>"

definition all_users_read :: grant where
  "all_users_read =
     \<lparr> Grantee = \<lparr> Grantee_Type = ''Group'', Grantee_ID = None,
                    Grantee_URI = Some ''http://acs.amazonaws.com/groups/global/AllUsers'' \<rparr>,
       Permission = Some ''READ'' \<rparr>"

definition example_acl :: "grant list \<Rightarrow> acl_response" where
  "example_acl grants = \<lparr> Owner = \<lparr> Owner_ID = ''owner-id'' \<rparr>, Grants = grants \<rparr>"

definition example_file :: "string \<Rightarrow> int \<Rightarrow> int \<Rightarrow> acl_response option \<Rightarrow> file_stat" where
  "example_file cmd sz t acl =
     \<lparr> src = ''a.txt'', dest = ''bucket/a.txt'', size_attr = sz, last_update = t,
       operation_name = cmd, acl_response_data = acl \<rparr>"

definition example_strategy :: "strategy_class \<Rightarrow> bool \<Rightarrow> strategy" where
  "example_strategy c acl =
     \<lparr> cls = c, u_sync_type = default_sync_type c, include_acl = acl, ARGUMENT = None \<rparr>"

definition my_flag_strategy :: strategy where
  "my_flag_strategy =
     \<lparr> cls = SizeAndLastModifiedSync, u_sync_type = ''file_at_src_and_dest'',
       include_acl = False, ARGUMENT = Some [''name'' \<mapsto> ''my-flag''] \<rparr>"

section \<open>Properties\<close>

subsection \<open>Time differences\<close>

lemma timedelta_microseconds_total:
  "microseconds (timedelta_of_microseconds n)
     + (seconds (timedelta_of_microseconds n) + days (timedelta_of_microseconds n) * 24 * 3600) * 10 ^ 6
   = n"
proof -
  define q where "q = n div 86400000000"
  define r where "r = n mod 86400000000"
  define s where "s = r div 1000000"
  define u where "u = r mod 1000000"
  have whole: "n = q * 86400000000 + r"
    unfolding q_def r_def by simp
  have rest: "r = s * 1000000 + u"
    unfolding s_def u_def by simp
  have micro: "n mod 1000000 = u"
    unfolding u_def r_def by (rule mod_mod_cancel [symmetric]) simp
  have "u + (s + q * 24 * 3600) * 10 ^ 6 = n"
    using whole rest by simp
  then show ?thesis
    unfolding timedelta_of_microseconds_def micro [symmetric] s_def r_def q_def by simp
qed

lemma total_seconds_datetime_sub:
  "total_seconds (datetime_sub a b) = of_int (a - b) / 10 ^ 6"
proof -
  let ?td = "timedelta_of_microseconds (a - b)"
  have "of_int (microseconds ?td) + (of_int (seconds ?td) + of_int (days ?td) * 24 * 3600) * 10 ^ 6
        = (of_int (microseconds ?td + (seconds ?td + days ?td * 24 * 3600) * 10 ^ 6) :: rat)"
    by simp
  then show ?thesis
    unfolding total_seconds_def datetime_sub_def
    by (simp only: timedelta_microseconds_total)
qed

lemma total_seconds_nonneg: "(total_seconds (datetime_sub a b) \<ge> 0) = (a - b \<ge> 0)"
  by (simp add: total_seconds_datetime_sub zero_le_divide_iff)

lemma total_seconds_nonpos: "(total_seconds (datetime_sub a b) \<le> 0) = (a - b \<le> 0)"
  by (simp add: total_seconds_datetime_sub divide_le_0_iff)

subsection \<open>Comparing modification times\<close>

text \<open>
  C4: with the operation upload or copy, \<^verbatim>\<open>compare_time\<close> returns true exactly when
  the destination's time minus the source's time is at least zero; with the operation
  download, exactly when that difference is at most zero.
\<close>

theorem compare_time_polarity:
  "(operation_name src_file = ''upload'' \<or> operation_name src_file = ''copy'' \<longrightarrow>
      compare_time src_file dest_file
        = Some (last_update dest_file - last_update src_file \<ge> 0))
   \<and> (operation_name src_file = ''download'' \<longrightarrow>
      compare_time src_file dest_file
        = Some (last_update dest_file - last_update src_file \<le> 0))"
  by (simp add: compare_time_def Let_def total_seconds_nonneg total_seconds_nonpos)

theorem compare_time_polarity_witness:
  "compare_time (example_file ''upload'' 100 5000000 None)
                (example_file ''upload'' 100 5000001 None) = Some True
   \<and> compare_time (example_file ''copy'' 100 5000001 None)
                  (example_file ''copy'' 100 5000000 None) = Some False
   \<and> compare_time (example_file ''download'' 100 5000000 None)
                  (example_file ''download'' 100 5000001 None) = Some False
   \<and> compare_time (example_file ''download'' 100 5000000 None)
                  (example_file ''download'' 100 5000000 None) = Some True"
  using
    compare_time_polarity [of "example_file ''upload'' 100 5000000 None"
                              "example_file ''upload'' 100 5000001 None"]
    compare_time_polarity [of "example_file ''copy'' 100 5000001 None"
                              "example_file ''copy'' 100 5000000 None"]
    compare_time_polarity [of "example_file ''download'' 100 5000000 None"
                              "example_file ''download'' 100 5000001 None"]
    compare_time_polarity [of "example_file ''download'' 100 5000000 None"
                              "example_file ''download'' 100 5000000 None"]
  by (simp add: example_file_def)

text \<open>
  C10: \<^verbatim>\<open>compare_time\<close> returns a boolean whenever the operation of the source record
  is upload, copy or download, and returns no value (\<^verbatim>\<open>None\<close>) for every other
  operation.
\<close>

theorem compare_time_decides:
  "(operation_name src_file \<in> {''upload'', ''copy'', ''download''} \<longrightarrow>
      (\<exists>b. compare_time src_file dest_file = Some b))
   \<and> (operation_name src_file \<notin> {''upload'', ''copy'', ''download''} \<longrightarrow>
      compare_time src_file dest_file = None)"
  by (auto simp: compare_time_def Let_def)

theorem compare_time_decides_witness:
  "(\<exists>b. compare_time (example_file ''copy'' 100 5000000 None)
                      (example_file ''copy'' 100 5000001 None) = Some b)
   \<and> compare_time (example_file ''delete'' 100 5000000 None)
                  (example_file ''delete'' 100 5000001 None) = None"
  using
    compare_time_decides [of "example_file ''copy'' 100 5000000 None"
                             "example_file ''copy'' 100 5000001 None"]
    compare_time_decides [of "example_file ''delete'' 100 5000000 None"
                             "example_file ''delete'' 100 5000001 None"]
  by (simp add: example_file_def)

subsection \<open>Comparing ACLs\<close>

lemma owner_grants_loop_same:
  "owner_grants_loop grants grants indices True = True"
  by (induction indices) (simp_all add: Let_def)

lemma other_grants_loop_subset:
  "set src_grants \<subseteq> set dest_grants \<Longrightarrow> other_grants_loop src_grants dest_grants True = True"
  by (induction src_grants) (simp_all add: Let_def)

text \<open>
  An ACL response compares equal to itself as soon as it holds a grant to its owner.
\<close>

lemma compare_acl_data_same:
  "fst (separate_owner_grants (Grants a) (Owner_ID (Owner a))) \<noteq> [] \<Longrightarrow>
     compare_acl_data a a = True"
  by (simp add: compare_acl_data_def separate_owner_grants_def Let_def
        owner_grants_loop_same other_grants_loop_subset)

text \<open>
  Without a grant to the owner on one of the two sides the owner comparison is skipped,
  \<^verbatim>\<open>are_equal\<close> keeps its initial value and the result is false, whatever the other
  grants are.
\<close>

lemma compare_acl_data_no_owner_grants:
  "fst (separate_owner_grants (Grants a) (Owner_ID (Owner a))) = [] \<or>
   fst (separate_owner_grants (Grants b) (Owner_ID (Owner b))) = [] \<Longrightarrow>
     compare_acl_data a b = False"
  by (auto simp: compare_acl_data_def separate_owner_grants_def Let_def)

text \<open>
  C1: \<^verbatim>\<open>compare_acl\<close> of a record with itself is claimed to be true whenever the
  record's ACL data is present. At a file whose ACL grants read access to all users and
  holds no grant to the owner, the comparison of the file with itself returns false.
\<close>

theorem compare_acl_same_file_no_owner_grant:
  "compare_acl (example_file ''upload'' 100 5000000 (Some (example_acl [all_users_read])))
               (example_file ''upload'' 100 5000000 (Some (example_acl [all_users_read])))
     = False"
  by (simp add: compare_acl_def compare_acl_data_def separate_owner_grants_def
        example_file_def example_acl_def all_users_read_def)

text \<open>
  C5: if the ACL data of the source or of the destination is absent, \<^verbatim>\<open>compare_acl\<close>
  returns true; the function is total, so no error is raised.
\<close>

theorem compare_acl_absent:
  "acl_response_data src_file = None \<or> acl_response_data dest_file = None \<Longrightarrow>
     compare_acl src_file dest_file = True"
  by (auto simp: compare_acl_def split: option.splits)

theorem compare_acl_absent_witness:
  "compare_acl (example_file ''upload'' 100 5000000 None)
               (example_file ''upload'' 100 5000000 (Some (example_acl [owner_full_control])))
     = True
   \<and> compare_acl (example_file ''upload'' 100 5000000 (Some (example_acl [all_users_read])))
                 (example_file ''upload'' 100 5000000 None)
     = True"
proof -
  have "acl_response_data (example_file ''upload'' 100 5000000 None) = None"
    by (simp add: example_file_def)
  then show ?thesis
    using
      compare_acl_absent [of "example_file ''upload'' 100 5000000 None"
        "example_file ''upload'' 100 5000000 (Some (example_acl [owner_full_control]))"]
      compare_acl_absent [of
        "example_file ''upload'' 100 5000000 (Some (example_acl [all_users_read]))"
        "example_file ''upload'' 100 5000000 None"]
    by simp
qed

subsection \<open>Decisions of the strategies\<close>

text \<open>
  C3: for two present records the decision of \<^verbatim>\<open>SizeAndLastModifiedSync\<close> is returned
  without an error, its \<^verbatim>\<open>sync_object\<close> is \<^verbatim>\<open>(not compare_size) or (not compare_time)\<close>,
  and it is true whenever the two sizes differ, whatever the timestamps are.
\<close>

theorem SizeAndLastModifiedSync_decision:
  "cls self = SizeAndLastModifiedSync \<Longrightarrow>
     (\<exists>r. determine_should_sync self (Some src_file) (Some dest_file) = Inr r
        \<and> sync_object r
            = (\<not> compare_size src_file dest_file \<or> py_not (compare_time src_file dest_file))
        \<and> (size_attr src_file \<noteq> size_attr dest_file \<longrightarrow> sync_object r = True))"
  by (simp add: determine_should_sync_def Let_def compare_size_def)

theorem SizeAndLastModifiedSync_decision_witness:
  "\<exists>r. determine_should_sync (example_strategy SizeAndLastModifiedSync False)
          (Some (example_file ''upload'' 100 5000000 None))
          (Some (example_file ''upload'' 200 5000000 None)) = Inr r
       \<and> sync_object r = True"
proof -
  have c: "cls (example_strategy SizeAndLastModifiedSync False) = SizeAndLastModifiedSync"
    by (simp add: example_strategy_def)
  have s: "size_attr (example_file ''upload'' 100 5000000 None)
             \<noteq> size_attr (example_file ''upload'' 200 5000000 None)"
    by (simp add: example_file_def)
  from SizeAndLastModifiedSync_decision [OF c,
         of "example_file ''upload'' 100 5000000 None"
            "example_file ''upload'' 200 5000000 None"] s
  show ?thesis by blast
qed

text \<open>
  C6: the decision of \<^verbatim>\<open>NeverSync\<close> is \<^verbatim>\<open>SyncResponse(False, False)\<close> for every pair of
  present or absent records and every setting of \<^verbatim>\<open>include_acl\<close>.
\<close>

theorem NeverSync_decision:
  "cls self = NeverSync \<Longrightarrow>
     determine_should_sync self src_file dest_file
       = Inr \<lparr> sync_object = False, sync_acl = False \<rparr>"
  by (simp add: determine_should_sync_def NeverSync_determine_should_sync_def)

theorem NeverSync_decision_witness:
  "determine_should_sync (example_strategy NeverSync True)
     (Some (example_file ''upload'' 100 5000000 (Some (example_acl [owner_full_control]))))
     (Some (example_file ''upload'' 200 4000000
              (Some (example_acl [owner_full_control, all_users_read]))))
     = Inr \<lparr> sync_object = False, sync_acl = False \<rparr>"
proof -
  have c: "cls (example_strategy NeverSync True) = NeverSync"
    by (simp add: example_strategy_def)
  show ?thesis
    by (rule NeverSync_decision [OF c])
qed

text \<open>
  C7: for a present source record and an absent destination the decision of
  \<^verbatim>\<open>MissingFileSync\<close> has \<^verbatim>\<open>sync_object\<close> true and \<^verbatim>\<open>sync_acl\<close> equal to the
  strategy's \<^verbatim>\<open>include_acl\<close>.
\<close>

theorem MissingFileSync_decision:
  "cls self = MissingFileSync \<Longrightarrow>
     determine_should_sync self (Some src_file) None
       = Inr \<lparr> sync_object = True, sync_acl = include_acl self \<rparr>"
  by (simp add: determine_should_sync_def)

theorem MissingFileSync_decision_witness:
  "determine_should_sync (example_strategy MissingFileSync True)
     (Some (example_file ''upload'' 100 5000000 None)) None
     = Inr \<lparr> sync_object = True, sync_acl = True \<rparr>
   \<and> determine_should_sync (example_strategy MissingFileSync False)
     (Some (example_file ''upload'' 100 5000000 None)) None
     = Inr \<lparr> sync_object = True, sync_acl = False \<rparr>"
proof -
  have t: "cls (example_strategy MissingFileSync True) = MissingFileSync"
    and f: "cls (example_strategy MissingFileSync False) = MissingFileSync"
    by (simp_all add: example_strategy_def)
  show ?thesis
    using MissingFileSync_decision [OF t, of "example_file ''upload'' 100 5000000 None"]
      MissingFileSync_decision [OF f, of "example_file ''upload'' 100 5000000 None"]
    by (simp add: example_strategy_def)
qed

text \<open>
  C2: every strategy is claimed to raise when both records are absent. A \<^verbatim>\<open>NeverSync\<close>
  built with its default arguments returns \<^verbatim>\<open>SyncResponse(False, False)\<close> there.
\<close>

theorem NeverSync_both_absent_returns:
  "new_strategy NeverSync None = Inr (example_strategy NeverSync False)
   \<and> determine_should_sync (example_strategy NeverSync False) None None
       = Inr \<lparr> sync_object = False, sync_acl = False \<rparr>"
  by (simp add: new_strategy_def BaseSync_init_def check_sync_type_def VALID_SYNC_TYPES_def
        example_strategy_def determine_should_sync_def NeverSync_determine_should_sync_def)

text \<open>
  C2, as amended: with both records absent the base class raises
  \<^verbatim>\<open>NotImplementedError\<close>, \<^verbatim>\<open>SizeAndLastModifiedSync\<close> and \<^verbatim>\<open>MissingFileSync\<close> raise
  \<^verbatim>\<open>AttributeError\<close> on their first read of an attribute of the absent source record,
  and \<^verbatim>\<open>NeverSync\<close>, which reads neither record, returns \<^verbatim>\<open>SyncResponse(False, False)\<close>.
\<close>

theorem determine_should_sync_both_absent:
  "determine_should_sync self None None =
     (case cls self of
        BaseSync \<Rightarrow> Inl NotImplementedError
      | SizeAndLastModifiedSync \<Rightarrow> Inl AttributeError
      | NeverSync \<Rightarrow> Inr \<lparr> sync_object = False, sync_acl = False \<rparr>
      | MissingFileSync \<Rightarrow> Inl AttributeError)"
  by (cases "cls self")
    (simp_all add: determine_should_sync_def BaseSync_determine_should_sync_def
       NeverSync_determine_should_sync_def)

theorem determine_should_sync_both_absent_witness:
  "determine_should_sync (example_strategy BaseSync False) None None = Inl NotImplementedError
   \<and> determine_should_sync (example_strategy SizeAndLastModifiedSync True) None None
       = Inl AttributeError
   \<and> determine_should_sync (example_strategy MissingFileSync True) None None
       = Inl AttributeError"
  using determine_should_sync_both_absent [of "example_strategy BaseSync False"]
    determine_should_sync_both_absent [of "example_strategy SizeAndLastModifiedSync True"]
    determine_should_sync_both_absent [of "example_strategy MissingFileSync True"]
  by (simp add: example_strategy_def)

subsection \<open>Construction\<close>

text \<open>
  C8: constructing a strategy of any class with a given sync type raises exactly when the
  sync type is none of \<^verbatim>\<open>file_at_src_and_dest\<close>, \<^verbatim>\<open>file_not_at_dest\<close> and
  \<^verbatim>\<open>file_not_at_src\<close>, the error then being \<^verbatim>\<open>ValueError\<close>; for each of the three
  values the construction succeeds and the property \<^verbatim>\<open>sync_type\<close> of the new strategy
  is the given value.
\<close>

theorem construction_checks_sync_type:
  "((\<exists>e. new_strategy c (Some t) = Inl e)
      = (t \<notin> {''file_at_src_and_dest'', ''file_not_at_dest'', ''file_not_at_src''}))
   \<and> (t \<notin> {''file_at_src_and_dest'', ''file_not_at_dest'', ''file_not_at_src''} \<longrightarrow>
        new_strategy c (Some t) = Inl ValueError)
   \<and> (t \<in> {''file_at_src_and_dest'', ''file_not_at_dest'', ''file_not_at_src''} \<longrightarrow>
        (\<exists>self. new_strategy c (Some t) = Inr self \<and> sync_type self = t \<and> cls self = c))"
  by (simp add: new_strategy_def BaseSync_init_def check_sync_type_def VALID_SYNC_TYPES_def
        sync_type_def)

theorem construction_checks_sync_type_witness:
  "new_strategy SizeAndLastModifiedSync (Some ''file_at_dest'') = Inl ValueError
   \<and> (\<exists>self. new_strategy NeverSync (Some ''file_not_at_dest'') = Inr self
         \<and> sync_type self = ''file_not_at_dest'' \<and> cls self = NeverSync)"
  using construction_checks_sync_type [of SizeAndLastModifiedSync "''file_at_dest''"]
    construction_checks_sync_type [of NeverSync "''file_not_at_dest''"]
  by simp

text \<open>The defaults of the four constructors are valid sync types.\<close>

lemma construction_default:
  "new_strategy c None = Inr (example_strategy c False)"
  by (cases c)
    (simp_all add: new_strategy_def BaseSync_init_def check_sync_type_def VALID_SYNC_TYPES_def
       example_strategy_def)

subsection \<open>Selection\<close>

text \<open>
  C9: for a strategy whose \<^verbatim>\<open>ARGUMENT\<close> has the name \<open>n\<close> and no \<^verbatim>\<open>dest\<close>, and for
  every parameter dictionary, \<^verbatim>\<open>use_sync_strategy\<close> returns the strategy itself when the
  dictionary binds \<open>n\<close>, with each dash replaced by an underscore, to \<^verbatim>\<open>True\<close>, and
  returns \<^verbatim>\<open>None\<close> when that key is bound to \<^verbatim>\<open>False\<close> or is missing.
\<close>

theorem use_sync_strategy_by_name:
  assumes "ARGUMENT self = Some a" and "a ''name'' = Some n" and "a ''dest'' = None"
  shows "(params (str_replace CHR ''-'' CHR ''_'' n) = Some (PyBool True) \<longrightarrow>
            use_sync_strategy self params = Some self)
       \<and> (params (str_replace CHR ''-'' CHR ''_'' n) = Some (PyBool False)
            \<or> params (str_replace CHR ''-'' CHR ''_'' n) = None \<longrightarrow>
            use_sync_strategy self params = None)"
  using assms
  by (auto simp: use_sync_strategy_def arg_name_def arg_dest_def dict_get_def Let_def)

theorem use_sync_strategy_by_name_witness:
  "use_sync_strategy my_flag_strategy [''my_flag'' \<mapsto> PyBool True] = Some my_flag_strategy
   \<and> use_sync_strategy my_flag_strategy [''my_flag'' \<mapsto> PyBool False] = None
   \<and> use_sync_strategy my_flag_strategy Map.empty = None"
proof -
  have a: "ARGUMENT my_flag_strategy = Some [''name'' \<mapsto> ''my-flag'']"
    by (simp add: my_flag_strategy_def)
  have n: "[''name'' \<mapsto> ''my-flag''] ''name'' = Some ''my-flag''"
    and d: "[''name'' \<mapsto> ''my-flag''] ''dest'' = None"
    by simp_all
  have r: "str_replace CHR ''-'' CHR ''_'' ''my-flag'' = ''my_flag''"
    by (simp add: str_replace_def)
  show ?thesis
    using use_sync_strategy_by_name [OF a n d, of "[''my_flag'' \<mapsto> PyBool True]"]
      use_sync_strategy_by_name [OF a n d, of "[''my_flag'' \<mapsto> PyBool False]"]
      use_sync_strategy_by_name [OF a n d, of Map.empty]
    by (simp add: r)
qed

end
